theory Spec2Isabelle
  imports Complex_Main
begin

section \<open>Object pool (utils/ObjectPool)\<close>

text \<open>
  Pooled objects are JavaScript object references.  \<open>createFn\<close> is a constructor: every
  call allocates a new object, and the model names the k-th object ever allocated by the
  pool's factory \<open>k\<close> (field \<open>nextRef\<close> counts the calls made so far).  The hooks
  \<open>validateFn\<close> and \<open>resetFn\<close> are taken as pure: \<open>validateFn\<close> is a predicate on
  objects and \<open>resetThrows\<close> tells on which objects \<open>resetFn\<close> throws.  Calls of
  \<open>disposeFn\<close> are recorded in \<open>disposeLog\<close>; \<open>createFn\<close>, \<open>validateFn\<close> and
  \<open>disposeFn\<close> are taken not to throw.  The JavaScript \<open>Set\<close> of active objects
  is a duplicate-free list in insertion order, the array \<open>available\<close> a list whose last
  element is the top (\<open>push\<close> appends, \<open>pop\<close> removes the last element).
\<close>

type_synonym obj = nat

record pool_config =
  initialSize :: int
  maxSize :: int
  autoGrow :: bool
  autoShrink :: bool
  shrinkThreshold :: real
  validateFn :: "obj \<Rightarrow> bool"
  resetThrows :: "obj \<Rightarrow> bool"

record pool_stats =
  total :: int
  activeCount :: int
  availableCount :: int
  created :: int
  reused :: int
  disposed :: int
  peak :: int

record pool =
  available :: "obj list"
  active :: "obj list"
  config :: pool_config
  stats :: pool_stats
  lastShrinkCheck :: int
  nextRef :: nat
  disposeLog :: "obj list"

datatype pool_error = PoolExhausted | PoolMaxSize

definition shrinkCheckInterval :: int where
  "shrinkCheckInterval = 5000"

definition set_add :: "obj \<Rightarrow> obj list \<Rightarrow> obj list" where
  "set_add x xs = (if x \<in> set xs then xs else xs @ [x])"

definition set_delete :: "obj \<Rightarrow> obj list \<Rightarrow> obj list" where
  "set_delete x xs = removeAll x xs"

definition getTotalSize :: "pool \<Rightarrow> int" where
  "getTotalSize p = int (length (available p)) + int (length (active p))"

definition getActiveCount :: "pool \<Rightarrow> int" where
  "getActiveCount p = int (length (active p))"

definition getAvailableCount :: "pool \<Rightarrow> int" where
  "getAvailableCount p = int (length (available p))"


text \<open>The disposal bookkeeping shared by every path that gives an object up:
  \<open>disposeFn(obj); stats.disposed++; stats.total--\<close>.\<close>

definition dispose_obj :: "obj \<Rightarrow> pool \<Rightarrow> pool" where
  "dispose_obj ob p =
     p\<lparr>disposeLog := disposeLog p @ [ob],
       stats := (stats p)\<lparr>disposed := disposed (stats p) + 1, total := total (stats p) - 1\<rparr>\<rparr>"

text \<open>The tail of \<open>acquire\<close> after validation succeeded: the object joins the active set.\<close>

definition activate :: "obj \<Rightarrow> pool \<Rightarrow> pool" where
  "activate ob p =
     (let st = stats p;
          st1 = st\<lparr>activeCount := activeCount st + 1, availableCount := availableCount st - 1\<rparr>;
          st2 = (if activeCount st1 > peak st1 then st1\<lparr>peak := activeCount st1\<rparr> else st1)
      in p\<lparr>active := set_add ob (active p), stats := st2\<rparr>)"

text \<open>The head of \<open>acquire\<close>: pop a pooled object, or construct one when the pool may
  grow, or fail.  The constructed object is not pushed on \<open>available\<close>.\<close>

definition take_obj :: "pool \<Rightarrow> pool_error + (obj \<times> pool)" where
  "take_obj p =
     (if length (available p) > 0 then
        Inr (last (available p),
             p\<lparr>available := butlast (available p),
               stats := (stats p)\<lparr>reused := reused (stats p) + 1\<rparr>\<rparr>)
      else if autoGrow (config p) \<and> getTotalSize p < maxSize (config p) then
        Inr (nextRef p,
             p\<lparr>nextRef := Suc (nextRef p),
               stats := (stats p)\<lparr>created := created (stats p) + 1, total := total (stats p) + 1\<rparr>\<rparr>)
      else Inl PoolExhausted)"

text \<open>\<open>acquire\<close> retries by calling itself, with no bound on the number of retries, so it
  is a partial function: \<open>None\<close> is the run that never returns.  A thrown error leaves the
  pool as the retries before it changed it, so the pool is returned with the error too.\<close>

partial_function (option) acquire :: "pool \<Rightarrow> ((pool_error + obj) \<times> pool) option" where
  "acquire p =
     (case take_obj p of
        Inl e \<Rightarrow> Some (Inl e, p)
      | Inr (ob, p1) \<Rightarrow>
          if \<not> validateFn (config p1) ob then acquire (dispose_obj ob p1)
          else Some (Inr ob, activate ob p1))"

declare acquire.simps [code]

text \<open>\<open>createObject\<close> (used by the constructor and by \<open>resize\<close>) refuses to construct
  beyond \<open>maxSize\<close>; the new object is pushed on \<open>available\<close>.\<close>

definition createObject :: "pool \<Rightarrow> pool_error + (obj \<times> pool)" where
  "createObject p =
     (if getTotalSize p \<ge> maxSize (config p) then Inl PoolMaxSize
      else Inr (nextRef p,
             p\<lparr>available := available p @ [nextRef p],
               nextRef := Suc (nextRef p),
               stats := (stats p)\<lparr>created := created (stats p) + 1,
                                   total := total (stats p) + 1,
                                   availableCount := availableCount (stats p) + 1\<rparr>\<rparr>))"

fun initialize :: "nat \<Rightarrow> pool \<Rightarrow> pool_error + pool" where
  "initialize 0 p = Inr p"
| "initialize (Suc n) p =
     (case createObject p of Inl e \<Rightarrow> Inl e | Inr (ob, p1) \<Rightarrow> initialize n p1)"

definition empty_stats :: pool_stats where
  "empty_stats = \<lparr>total = 0, activeCount = 0, availableCount = 0, created = 0, reused = 0,
                   disposed = 0, peak = 0\<rparr>"

text \<open>The constructor: the loop \<open>for (i = 0; i < initialSize; i++)\<close> runs \<open>initialSize\<close>
  times (not at all when it is negative) and the error of \<open>createObject\<close> escapes it.\<close>

definition new_pool :: "pool_config \<Rightarrow> pool_error + pool" where
  "new_pool c =
     initialize (nat (initialSize c))
       \<lparr>available = [], active = [], config = c, stats = empty_stats, lastShrinkCheck = 0,
          nextRef = 0, disposeLog = []\<rparr>"

text \<open>\<open>stats.active / stats.total < shrinkThreshold\<close> on JavaScript numbers, for a finite
  threshold: a zero divisor gives NaN (0/0), +Infinity or -Infinity, and only -Infinity is
  below the threshold.\<close>

definition ratio_below :: "int \<Rightarrow> int \<Rightarrow> real \<Rightarrow> bool" where
  "ratio_below a t thr =
     (if t = 0 then a < 0 else real_of_int a / real_of_int t < thr)"

text \<open>The disposal loop of \<open>checkShrink\<close>; \<open>pop\<close> on an empty array gives \<open>undefined\<close>,
  which the loop body skips.\<close>

fun shrink_loop :: "nat \<Rightarrow> pool \<Rightarrow> pool" where
  "shrink_loop 0 p = p"
| "shrink_loop (Suc n) p =
     shrink_loop n
       (if available p = [] then p
        else let ob = last (available p);
                 p1 = dispose_obj ob (p\<lparr>available := butlast (available p)\<rparr>)
             in p1\<lparr>stats := (stats p1)\<lparr>availableCount := availableCount (stats p1) - 1\<rparr>\<rparr>)"

text \<open>\<open>checkShrink\<close> reads the wall clock; \<open>now\<close> is the value of \<open>Date.now()\<close>.\<close>

definition checkShrink :: "int \<Rightarrow> pool \<Rightarrow> pool" where
  "checkShrink now p =
     (if now - lastShrinkCheck p < shrinkCheckInterval then p
      else
        let p1 = p\<lparr>lastShrinkCheck := now\<rparr>;
            n = int (length (available p1))
        in if ratio_below (activeCount (stats p1)) (total (stats p1)) (shrinkThreshold (config p1))
              \<and> n > initialSize (config p1)
           then let excessObjects = n - initialSize (config p1);
                    objectsToRemove = min excessObjects (n div 4)
                in shrink_loop (nat objectsToRemove) p1
           else p1)"

definition release :: "obj \<Rightarrow> int \<Rightarrow> pool \<Rightarrow> pool" where
  "release ob now p =
     (if ob \<notin> set (active p) then p
      else
        let p1 = p\<lparr>active := set_delete ob (active p),
                   stats := (stats p)\<lparr>activeCount := activeCount (stats p) - 1\<rparr>\<rparr>
        in if resetThrows (config p1) ob then dispose_obj ob p1
           else
             let p2 = p1\<lparr>available := available p1 @ [ob],
                        stats := (stats p1)\<lparr>availableCount := availableCount (stats p1) + 1\<rparr>\<rparr>
             in if autoShrink (config p2) then checkShrink now p2 else p2)"

text \<open>A sequence of calls on one pool.  \<open>Release ob now\<close> is \<open>release(ob)\<close> made when the
  wall clock reads \<open>now\<close>.  An \<open>acquire\<close> that throws leaves the pool to the next call;
  one that never returns ends the run (\<open>None\<close>).\<close>

datatype pool_op = Acquire | Release obj int

fun run_ops :: "pool_op list \<Rightarrow> pool \<Rightarrow> pool option" where
  "run_ops [] p = Some p"
| "run_ops (Acquire # ops) p =
     (case acquire p of None \<Rightarrow> None | Some (r, p1) \<Rightarrow> run_ops ops p1)"
| "run_ops (Release ob now # ops) p = run_ops ops (release ob now p)"

text \<open>Example pools for the concrete evaluations below.\<close>

definition cfg_small :: pool_config where
  "cfg_small = \<lparr>initialSize = 1, maxSize = 2, autoGrow = True, autoShrink = True,
                 shrinkThreshold = 1/2, validateFn = (\<lambda>ob. True), resetThrows = (\<lambda>ob. False)\<rparr>"




text \<open>The invariant of the pool: the two collections hold distinct objects, share none,
  hold only objects the factory has made, and their sizes add up to the objects
  constructed and not disposed.\<close>

definition pool_inv :: "pool \<Rightarrow> bool" where
  "pool_inv p \<longleftrightarrow>
     distinct (available p) \<and> distinct (active p) \<and>
     set (available p) \<inter> set (active p) = {} \<and>
     (\<forall>ob \<in> set (available p) \<union> set (active p). ob < nextRef p) \<and>
     getTotalSize p = created (stats p) - disposed (stats p)"

text \<open>The same while \<open>acquire\<close> or \<open>release\<close> holds one object \<open>ob\<close> in a local
  variable, outside both collections.\<close>

definition held_inv :: "obj \<Rightarrow> pool \<Rightarrow> bool" where
  "held_inv ob p \<longleftrightarrow>
     distinct (available p) \<and> distinct (active p) \<and>
     set (available p) \<inter> set (active p) = {} \<and>
     (\<forall>x \<in> set (available p) \<union> set (active p). x < nextRef p) \<and>
     ob \<notin> set (available p) \<and> ob \<notin> set (active p) \<and> ob < nextRef p \<and>
     getTotalSize p + 1 = created (stats p) - disposed (stats p)"




definition pool_start :: pool where
  "pool_start = \<lparr>available = [0], active = [], config = cfg_small,
                  stats = empty_stats\<lparr>total := 1, availableCount := 1, created := 1\<rparr>,
                  lastShrinkCheck = 0, nextRef = 1, disposeLog = []\<rparr>"

definition ops_demo :: "pool_op list" where
  "ops_demo = [Acquire, Acquire, Release 0 10, Acquire, Acquire]"

definition pool_final :: pool where
  "pool_final = \<lparr>available = [], active = [1, 0], config = cfg_small,
                  stats = \<lparr>total = 2, activeCount = 2, availableCount = - 1, created = 2,
                            reused = 2, disposed = 0, peak = 2\<rparr>,
                  lastShrinkCheck = 0, nextRef = 2, disposeLog = []\<rparr>"


section \<open>Particles (components/ParticleSystem)\<close>

text \<open>
  JavaScript numbers are modelled as reals.  \<open>ParticleType\<close> and the table
  \<open>PARTICLE_CONFIGS\<close> are declared outside the files at hand: a particle type is a string
  and the table entry a spawn uses (after the fallback to \<open>default\<close>) is an input.
  A \<open>DataParticle\<close> is an object with identity (\<open>ref\<close>); of its mesh the model keeps the
  position, the colour and the opacity, of its trail line the point buffer and the
  opacity.
\<close>

record vector3 =
  vec_x :: real
  vec_y :: real
  vec_z :: real

record trail_data =
  positions :: "vector3 list"
  maxLength :: nat
  fadeRate :: real

record particle_data =
  pid :: string
  ptype :: string
  position :: vector3
  velocity :: vector3
  life :: real
  maxLife :: real
  psize :: real
  color :: int
  trail :: "trail_data option"

record data_particle =
  ref :: nat
  pdata :: particle_data
  meshPosition :: vector3
  meshColor :: int
  opacity :: real
  trailPoints :: "vector3 list option"
  trailOpacity :: real

text \<open>\<open>updateTrail\<close>: the first \<open>maxLength\<close> points of the buffer move one place back
  and the current position becomes the first point.  The buffer is a typed array of the
  length it was created with, so writes beyond its end are dropped.\<close>

definition shift_points :: "nat \<Rightarrow> vector3 \<Rightarrow> vector3 list \<Rightarrow> vector3 list" where
  "shift_points maxPoints cur pts =
     (if pts = [] then []
      else let k = max 1 (min maxPoints (length pts))
           in take k (cur # pts) @ drop k pts)"

definition updateTrail :: "data_particle \<Rightarrow> data_particle" where
  "updateTrail p =
     (case (trailPoints p, trail (pdata p)) of
        (Some pts, Some t) \<Rightarrow>
          p\<lparr>trailPoints := Some (shift_points (maxLength t) (position (pdata p)) pts),
            trailOpacity := 0.3 * (life (pdata p) / maxLife (pdata p))\<rparr>
      | _ \<Rightarrow> p)"

text \<open>\<open>DataParticle.update(deltaTime)\<close>: the result says whether the particle stays
  alive.  The gravity step is taken only while \<open>velocity.y > -10\<close>; no setting of the
  system is read here.\<close>

definition particle_update :: "real \<Rightarrow> data_particle \<Rightarrow> bool \<times> data_particle" where
  "particle_update deltaTime p =
     (let d0 = pdata p;
          d1 = d0\<lparr>life := life d0 - deltaTime\<rparr>
      in if life d1 \<le> 0 then (False, p\<lparr>pdata := d1\<rparr>)
         else
           let pos = position d1; vel = velocity d1;
               pos' = \<lparr>vec_x = vec_x pos + vec_x vel * deltaTime,
                       vec_y = vec_y pos + vec_y vel * deltaTime,
                       vec_z = vec_z pos + vec_z vel * deltaTime\<rparr>;
               d2 = d1\<lparr>position := pos'\<rparr>;
               lifeRatio = life d2 / maxLife d2;
               p1 = p\<lparr>pdata := d2, meshPosition := pos', opacity := 0.8 * lifeRatio\<rparr>;
               p2 = (if trailPoints p1 \<noteq> None \<and> trail (pdata p1) \<noteq> None
                     then updateTrail p1 else p1);
               d3 = pdata p2;
               d4 = (if vec_y (velocity d3) > - 10
                     then d3\<lparr>velocity := (velocity d3)\<lparr>vec_y := vec_y (velocity d3)
                                                             - 9.8 * deltaTime * 0.1\<rparr>\<rparr>
                     else d3)
           in (True, p2\<lparr>pdata := d4\<rparr>))"

text \<open>A sequence of \<open>update\<close> calls on one particle.\<close>

fun particle_updates :: "real list \<Rightarrow> data_particle \<Rightarrow> data_particle" where
  "particle_updates [] p = p"
| "particle_updates (dt # dts) p = particle_updates dts (snd (particle_update dt p))"


datatype quality = Low | Medium | High

record particle_config =
  maxParticles :: int
  spawnRate :: real
  enablePhysics :: bool
  enableCollisions :: bool
  pquality :: quality

text \<open>The system uses its pool through \<open>acquire()\<close> and \<open>release()\<close> only.  What
  \<open>acquire()\<close> gives at a spawn is an input; the particles handed to \<open>release()\<close> are
  recorded in \<open>released\<close>.  The scene group is not modelled.\<close>

record particle_system =
  psConfig :: particle_config
  activeParticles :: "data_particle list"
  spawnTimer :: real
  enabled :: bool
  released :: "data_particle list"










definition setQuality :: "quality \<Rightarrow> particle_system \<Rightarrow> particle_system" where
  "setQuality q s =
     (let c = (psConfig s)\<lparr>pquality := q\<rparr>
      in s\<lparr>psConfig :=
             (case q of
                Low \<Rightarrow> c\<lparr>maxParticles := 50, spawnRate := 2\<rparr>
              | Medium \<Rightarrow> c\<lparr>maxParticles := 100, spawnRate := 5\<rparr>
              | High \<Rightarrow> c\<lparr>maxParticles := 200, spawnRate := 10\<rparr>)\<rparr>)"

text \<open>Example particles and systems.\<close>

definition origin :: vector3 where
  "origin = \<lparr>vec_x = 0, vec_y = 0, vec_z = 0\<rparr>"

definition particle_falling :: data_particle where
  "particle_falling =
     \<lparr>ref = 0,
       pdata = \<lparr>pid = ''p0'', ptype = ''data-flow'', position = origin,
                 velocity = \<lparr>vec_x = 0, vec_y = - 99 / 10, vec_z = 0\<rparr>,
                 life = 10, maxLife = 10, psize = 1 / 2, color = 9133302, trail = None\<rparr>,
       meshPosition = origin, meshColor = 9133302, opacity = 0.8,
       trailPoints = None, trailOpacity = 0.3\<rparr>"




section \<open>Level of detail (systems/LODManager)\<close>

text \<open>
  A tracked scene object is known by its \<open>uuid\<close>, its world position and its visibility
  flag; both \<open>District\<close> and \<open>Building\<close> components have the \<open>setLOD\<close> method.  A camera
  passed to \<open>update\<close> is used for the frustum test only and is modelled by that test on
  world-space spheres.  \<open>lastDistance\<close> starts as Infinity, here \<open>None\<close>.  Calls of the
  component hook and emitted events are recorded in \<open>lodTrace\<close>; the material tweaks of
  \<open>applyGenericLOD\<close> belong to the 3D engine and are left out.
\<close>

datatype lod_level = LodHigh | LodMedium | LodLow | LodCulled

datatype component = DistrictComponent string | BuildingComponent string

record sphere =
  center :: vector3
  radius :: real

type_synonym camera_frustum = "sphere \<Rightarrow> bool"

record lod_object =
  uuid :: string
  worldPosition :: vector3
  objectVisible :: bool
  component :: "component option"
  boundingSphere :: sphere
  lastDistance :: "real option"
  lastLODLevel :: lod_level
  isVisible :: bool
  forceUpdate :: bool

record lod_config =
  enableLOD :: bool
  distances :: "real \<times> real \<times> real"
  enableFrustumCulling :: bool
  enableOcclusionCulling :: bool
  updateFrequency :: real

record lod_stats =
  totalObjects :: int
  visibleCount :: int
  culledObjects :: int
  levelsHigh :: int
  levelsMedium :: int
  levelsLow :: int
  lastUpdateDuration :: real

datatype lod_event =
    SetLOD component real "real \<times> real \<times> real"
  | LevelChange string lod_level real
  | ObjectAdded string bool
  | StatsUpdate lod_stats

record lod_manager =
  lodConfig :: lod_config
  lodObjects :: "(string \<times> lod_object) list"
  visibleObjects :: "string list"
  lastUpdateTime :: real
  updateInterval :: real
  lodStats :: lod_stats
  lodTrace :: "lod_event list"

definition distanceTo :: "vector3 \<Rightarrow> vector3 \<Rightarrow> real" where
  "distanceTo a b =
     sqrt ((vec_x a - vec_x b)\<^sup>2 + (vec_y a - vec_y b)\<^sup>2 + (vec_z a - vec_z b)\<^sup>2)"

definition setObjectVisibility ::
  "bool \<Rightarrow> lod_object \<times> lod_manager \<Rightarrow> lod_object \<times> lod_manager" where
  "setObjectVisibility visible om =
     (let ob = fst om; m = snd om
      in if isVisible ob = visible then (ob, m)
         else (ob\<lparr>objectVisible := visible, isVisible := visible\<rparr>,
               m\<lparr>visibleObjects :=
                    (if visible
                     then (if uuid ob \<in> set (visibleObjects m) then visibleObjects m
                           else visibleObjects m @ [uuid ob])
                     else removeAll (uuid ob) (visibleObjects m))\<rparr>))"

definition applyLODLevel :: "lod_object \<Rightarrow> lod_level \<Rightarrow> real \<Rightarrow> lod_manager \<Rightarrow> lod_manager" where
  "applyLODLevel ob level distance m =
     (let m1 = (case component ob of
                  Some c \<Rightarrow> m\<lparr>lodTrace := lodTrace m @ [SetLOD c distance (distances (lodConfig m))]\<rparr>
                | None \<Rightarrow> m)
      in m1\<lparr>lodTrace := lodTrace m1 @ [LevelChange (uuid ob) level distance]\<rparr>)"

definition cull_object :: "lod_object \<times> lod_manager \<Rightarrow> lod_object \<times> lod_manager" where
  "cull_object om =
     (let (ob1, m1) = setObjectVisibility False om
      in (ob1\<lparr>lastLODLevel := LodCulled\<rparr>,
          m1\<lparr>lodStats := (lodStats m1)\<lparr>culledObjects := culledObjects (lodStats m1) + 1\<rparr>\<rparr>))"

text \<open>The distance tiers of \<open>updateLODObject\<close>, in the order of its tests; beyond the
  last threshold the object is culled.\<close>

definition tier_of :: "real \<Rightarrow> real \<times> real \<times> real \<Rightarrow> lod_level" where
  "tier_of distance ds =
     (let (highDist, mediumDist, lowDist) = ds
      in if distance \<le> highDist then LodHigh
         else if distance \<le> mediumDist then LodMedium
         else if distance \<le> lowDist then LodLow
         else LodCulled)"

definition count_level :: "lod_level \<Rightarrow> lod_stats \<Rightarrow> lod_stats" where
  "count_level level st =
     (case level of
        LodHigh \<Rightarrow> st\<lparr>levelsHigh := levelsHigh st + 1\<rparr>
      | LodMedium \<Rightarrow> st\<lparr>levelsMedium := levelsMedium st + 1\<rparr>
      | LodLow \<Rightarrow> st\<lparr>levelsLow := levelsLow st + 1\<rparr>
      | LodCulled \<Rightarrow> st)"

text \<open>\<open>updateLODObject\<close>.  The object is written with \<open>forceUpdate = false\<close> right after
  the test that lets it in; the last test, \<open>newLODLevel !== lastLODLevel || forceUpdate\<close>,
  reads the flag of the object as it is by then.\<close>

definition updateLODObject ::
  "lod_object \<Rightarrow> vector3 \<Rightarrow> camera_frustum option \<Rightarrow> lod_manager \<Rightarrow> lod_object \<times> lod_manager" where
  "updateLODObject lodObject cameraPosition camera m =
     (let distance = distanceTo cameraPosition (worldPosition lodObject);
          distanceChanged = (case lastDistance lodObject of
                               None \<Rightarrow> True
                             | Some d \<Rightarrow> \<bar>distance - d\<bar> > 5)
      in if \<not> forceUpdate lodObject \<and> \<not> distanceChanged then (lodObject, m)
         else
           let ob1 = lodObject\<lparr>lastDistance := Some distance, forceUpdate := False\<rparr>;
               isInFrustum =
                 (case camera of
                    Some frustum \<Rightarrow>
                      if enableFrustumCulling (lodConfig m)
                      then frustum \<lparr>center =
                             \<lparr>vec_x = vec_x (center (boundingSphere ob1)) + vec_x (worldPosition ob1),
                               vec_y = vec_y (center (boundingSphere ob1)) + vec_y (worldPosition ob1),
                               vec_z = vec_z (center (boundingSphere ob1)) + vec_z (worldPosition ob1)\<rparr>,
                             radius = radius (boundingSphere ob1)\<rparr>
                      else True
                  | None \<Rightarrow> True)
           in if \<not> isInFrustum then cull_object (ob1, m)
              else
                let newLODLevel = tier_of distance (distances (lodConfig m))
                in if newLODLevel = LodCulled then cull_object (ob1, m)
                   else
                     let m1 = m\<lparr>lodStats := count_level newLODLevel (lodStats m)\<rparr>;
                         (ob2, m2) = setObjectVisibility True (ob1, m1);
                         m3 = m2\<lparr>lodStats := (lodStats m2)\<lparr>visibleCount := visibleCount (lodStats m2) + 1\<rparr>\<rparr>
                     in if newLODLevel \<noteq> lastLODLevel ob2 \<or> forceUpdate ob2
                        then (ob2\<lparr>lastLODLevel := newLODLevel\<rparr>,
                              applyLODLevel ob2 newLODLevel distance m3)
                        else (ob2, m3))"

text \<open>The pass over the map: each object is updated in place, in insertion order.\<close>

fun update_objects ::
  "(string \<times> lod_object) list \<Rightarrow> vector3 \<Rightarrow> camera_frustum option \<Rightarrow> lod_manager
     \<Rightarrow> (string \<times> lod_object) list \<times> lod_manager" where
  "update_objects [] cameraPosition camera m = ([], m)"
| "update_objects ((k, ob) # rest) cameraPosition camera m =
     (let (ob', m1) = updateLODObject ob cameraPosition camera m;
          (rest', m2) = update_objects rest cameraPosition camera m1
      in ((k, ob') # rest', m2))"

text \<open>\<open>update\<close>; \<open>now\<close> and \<open>endTime\<close> are the readings of \<open>performance.now()\<close> at
  the start and at the end of the pass.\<close>

definition lod_update ::
  "vector3 \<Rightarrow> camera_frustum option \<Rightarrow> real \<Rightarrow> real \<Rightarrow> lod_manager \<Rightarrow> lod_manager" where
  "lod_update cameraPosition camera now endTime m =
     (if now - lastUpdateTime m < updateInterval m then m
      else
        let m1 = m\<lparr>lodStats := (lodStats m)\<lparr>visibleCount := 0, culledObjects := 0,
                                            levelsHigh := 0, levelsMedium := 0, levelsLow := 0\<rparr>\<rparr>;
            (obs, m2) = update_objects (lodObjects m1) cameraPosition camera m1;
            m3 = m2\<lparr>lodObjects := obs, lastUpdateTime := now,
                    lodStats := (lodStats m2)\<lparr>lastUpdateDuration := endTime - now\<rparr>\<rparr>
        in m3\<lparr>lodTrace := lodTrace m3 @ [StatsUpdate (lodStats m3)]\<rparr>)"

definition markAllForUpdate :: "lod_manager \<Rightarrow> lod_manager" where
  "markAllForUpdate m =
     m\<lparr>lodObjects := map (\<lambda>(k, ob). (k, ob\<lparr>forceUpdate := True\<rparr>)) (lodObjects m)\<rparr>"

definition setDistances :: "real \<times> real \<times> real \<Rightarrow> lod_manager \<Rightarrow> lod_manager" where
  "setDistances ds m = markAllForUpdate (m\<lparr>lodConfig := (lodConfig m)\<lparr>distances := ds\<rparr>\<rparr>)"

definition setUpdateFrequency :: "real \<Rightarrow> lod_manager \<Rightarrow> lod_manager" where
  "setUpdateFrequency frequency m =
     (let f = max 5 (min 60 frequency)
      in m\<lparr>lodConfig := (lodConfig m)\<lparr>updateFrequency := f\<rparr>, updateInterval := 1000 / f\<rparr>)"

definition set_enableFrustumCulling :: "bool \<Rightarrow> lod_manager \<Rightarrow> lod_manager" where
  "set_enableFrustumCulling en m =
     markAllForUpdate (m\<lparr>lodConfig := (lodConfig m)\<lparr>enableFrustumCulling := en\<rparr>\<rparr>)"

text \<open>\<open>adjustQualitySettings\<close>, the handler of quality changes, sets thresholds and
  frequency together and marks every object.\<close>

definition adjustQualitySettings :: "quality \<Rightarrow> lod_manager \<Rightarrow> lod_manager" where
  "adjustQualitySettings q m =
     (let c = lodConfig m;
          c1 = (case q of
                  Low \<Rightarrow> c\<lparr>distances := (75, 150, 300), updateFrequency := 15\<rparr>
                | Medium \<Rightarrow> c\<lparr>distances := (60, 120, 250), updateFrequency := 20\<rparr>
                | High \<Rightarrow> c\<lparr>distances := (50, 100, 200), updateFrequency := 30\<rparr>)
      in markAllForUpdate (m\<lparr>lodConfig := c1, updateInterval := 1000 / updateFrequency c1\<rparr>))"

text \<open>\<open>addObject\<close>, with the bounding sphere the engine computes as an argument.\<close>

definition addObject ::
  "string \<Rightarrow> vector3 \<Rightarrow> sphere \<Rightarrow> component option \<Rightarrow> lod_manager \<Rightarrow> lod_manager" where
  "addObject k pos bs cmp m =
     (let lodObject = \<lparr>uuid = k, worldPosition = pos, objectVisible = True, component = cmp,
                       boundingSphere = bs, lastDistance = None, lastLODLevel = LodHigh,
                       isVisible = True, forceUpdate = True\<rparr>
      in m\<lparr>lodObjects := (if k \<in> fst ` set (lodObjects m)
                           then map (\<lambda>(k', ob). if k' = k then (k', lodObject) else (k', ob))
                                  (lodObjects m)
                           else lodObjects m @ [(k, lodObject)]),
           lodStats := (lodStats m)\<lparr>totalObjects := totalObjects (lodStats m) + 1\<rparr>,
           lodTrace := lodTrace m @ [ObjectAdded k (cmp \<noteq> None)]\<rparr>)"

text \<open>The manager as constructed with the default configuration, and examples.\<close>

definition lod_new :: lod_manager where
  "lod_new = \<lparr>lodConfig = \<lparr>enableLOD = True, distances = (50, 100, 200),
                             enableFrustumCulling = True, enableOcclusionCulling = False,
                             updateFrequency = 30\<rparr>,
               lodObjects = [], visibleObjects = [], lastUpdateTime = 0,
               updateInterval = 1000 / 30,
               lodStats = \<lparr>totalObjects = 0, visibleCount = 0, culledObjects = 0,
                            levelsHigh = 0, levelsMedium = 0, levelsLow = 0,
                            lastUpdateDuration = 0\<rparr>,
               lodTrace = []\<rparr>"

definition unit_sphere :: sphere where
  "unit_sphere = \<lparr>center = origin, radius = 1\<rparr>"

definition lod_one :: lod_manager where
  "lod_one = addObject ''d1'' origin unit_sphere (Some (DistrictComponent ''d1'')) lod_new"

definition district_fresh :: lod_object where
  "district_fresh = \<lparr>uuid = ''d1'', worldPosition = origin, objectVisible = True,
                      component = Some (DistrictComponent ''d1''),
                      boundingSphere = unit_sphere, lastDistance = None,
                      lastLODLevel = LodHigh, isVisible = True, forceUpdate = True\<rparr>"

text \<open>The manager after one pass over the newly added district, seen from the origin
  without a camera object.\<close>

definition lod_seen :: lod_manager where
  "lod_seen = lod_update origin None 1000 1001 lod_one"


section \<open>Animation loop (systems/AnimationLoop)\<close>

text \<open>
  The model keeps the timing state of the loop and a trace of the hook phases it runs
  (every registered callback of a phase gets the same arguments).  Times of
  \<open>performance.now()\<close> and of the frame callback are in milliseconds, \<open>deltaTime\<close> and
  \<open>elapsedTime\<close> in seconds.  The browser decides when \<open>loop\<close> is called next, so the
  ticks are inputs; performance sampling and rescheduling write none of the timing fields
  and are left out, and hooks are taken not to throw (the loop catches what they throw
  after the timing fields are written).
\<close>

record loop_config =
  targetFPS :: real
  enableAdaptiveFrameRate :: bool
  enablePerformanceTracking :: bool
  maxDeltaTime :: real
  enableFixedTimeStep :: bool
  fixedTimeStep :: real

datatype hook_call =
    PreUpdate real real
  | Update real real
  | Render
  | PostRender real real

record animation_loop =
  isRunning :: bool
  isPaused :: bool
  lastTime :: real
  elapsedTime :: real
  deltaTime :: real
  frameCount :: nat
  accumulator :: real
  loopConfig :: loop_config
  hookCalls :: "hook_call list"

definition maxAccumulator :: real where
  "maxAccumulator = 0.25"

definition render :: "animation_loop \<Rightarrow> animation_loop" where
  "render s = s\<lparr>hookCalls := hookCalls s @ [Render, PostRender (deltaTime s) (elapsedTime s)]\<rparr>"

definition variableTimeStepUpdate :: "animation_loop \<Rightarrow> animation_loop" where
  "variableTimeStepUpdate s =
     render (s\<lparr>hookCalls := hookCalls s @ [PreUpdate (deltaTime s) (elapsedTime s),
                                           Update (deltaTime s) (elapsedTime s)]\<rparr>)"

text \<open>The \<open>while\<close> loop of \<open>fixedTimeStepUpdate\<close>; it does not end when the fixed step
  is 0 or negative.\<close>

partial_function (option) fixed_steps :: "animation_loop \<Rightarrow> animation_loop option" where
  "fixed_steps s =
     (if accumulator s \<ge> fixedTimeStep (loopConfig s)
      then fixed_steps
             (s\<lparr>hookCalls := hookCalls s @
                    [PreUpdate (fixedTimeStep (loopConfig s)) (elapsedTime s),
                     Update (fixedTimeStep (loopConfig s)) (elapsedTime s)],
                accumulator := accumulator s - fixedTimeStep (loopConfig s)\<rparr>)
      else Some s)"

declare fixed_steps.simps [code]

definition fixedTimeStepUpdate :: "animation_loop \<Rightarrow> animation_loop option" where
  "fixedTimeStepUpdate s =
     (let a = accumulator s + deltaTime s;
          s1 = s\<lparr>accumulator := (if a > maxAccumulator then maxAccumulator else a)\<rparr>
      in case fixed_steps s1 of
           None \<Rightarrow> None
         | Some s2 \<Rightarrow> Some (render s2))"

text \<open>\<open>loop(currentTime)\<close>: delta, \<open>lastTime\<close>, \<open>elapsedTime\<close> and the frame count are
  written first; the test for the pause comes after them.\<close>

definition loop :: "real \<Rightarrow> animation_loop \<Rightarrow> animation_loop option" where
  "loop currentTime s =
     (if \<not> isRunning s then Some s
      else
        let rawDeltaTime = currentTime - lastTime s;
            dt = min (rawDeltaTime / 1000) (maxDeltaTime (loopConfig s));
            s1 = s\<lparr>deltaTime := dt, lastTime := currentTime,
                   elapsedTime := elapsedTime s + dt, frameCount := Suc (frameCount s)\<rparr>
        in if isPaused s1 then Some s1
           else if enableFixedTimeStep (loopConfig s1) then fixedTimeStepUpdate s1
           else Some (variableTimeStepUpdate s1))"

text \<open>The public controls; \<open>now\<close> is the reading of \<open>performance.now()\<close>.\<close>

definition start :: "real \<Rightarrow> animation_loop \<Rightarrow> animation_loop" where
  "start now s = (if isRunning s then s
                  else s\<lparr>isRunning := True, isPaused := False, lastTime := now\<rparr>)"

definition stop :: "animation_loop \<Rightarrow> animation_loop" where
  "stop s = (if \<not> isRunning s then s else s\<lparr>isRunning := False, isPaused := False\<rparr>)"

definition pause :: "animation_loop \<Rightarrow> animation_loop" where
  "pause s = (if \<not> isRunning s \<or> isPaused s then s else s\<lparr>isPaused := True\<rparr>)"

definition resume :: "real \<Rightarrow> animation_loop \<Rightarrow> animation_loop" where
  "resume now s = (if \<not> isRunning s \<or> \<not> isPaused s then s
                   else s\<lparr>isPaused := False, lastTime := now\<rparr>)"

definition step :: "animation_loop \<Rightarrow> animation_loop" where
  "step s =
     (if isRunning s \<and> \<not> isPaused s then s
      else variableTimeStepUpdate
             (s\<lparr>deltaTime := fixedTimeStep (loopConfig s),
                elapsedTime := elapsedTime s + fixedTimeStep (loopConfig s)\<rparr>))"

text \<open>A run of frame callbacks at the given times.\<close>

fun ticks :: "real list \<Rightarrow> animation_loop \<Rightarrow> animation_loop option" where
  "ticks [] s = Some s"
| "ticks (t # ts) s = (case loop t s of None \<Rightarrow> None | Some s1 \<Rightarrow> ticks ts s1)"

text \<open>The loop as constructed (variable step, deltas capped at 0.1 s), started at time 0
  and paused after its first frame at 16 ms.\<close>

definition loop_new :: animation_loop where
  "loop_new = \<lparr>isRunning = False, isPaused = False, lastTime = 0, elapsedTime = 0,
                deltaTime = 0, frameCount = 0, accumulator = 0,
                loopConfig = \<lparr>targetFPS = 60, enableAdaptiveFrameRate = False,
                               enablePerformanceTracking = False, maxDeltaTime = 1 / 10,
                               enableFixedTimeStep = False, fixedTimeStep = 1 / 60\<rparr>,
                hookCalls = []\<rparr>"

definition loop_paused :: animation_loop where
  "loop_paused = \<lparr>isRunning = True, isPaused = True, lastTime = 16, elapsedTime = 2 / 125,
                   deltaTime = 2 / 125, frameCount = 1, accumulator = 0,
                   loopConfig = loopConfig loop_new,
                   hookCalls = [PreUpdate (2 / 125) (2 / 125), Update (2 / 125) (2 / 125),
                                Render, PostRender (2 / 125) (2 / 125)]\<rparr>"


section \<open>Camera controller (core/Camera)\<close>

text \<open>
  The current and the target orbital state, the smoothing configuration and the transition
  flag.  Of the engine's camera object the model keeps the position that
  \<open>updatePosition\<close> computes and the field of view.  \<open>Date.now()\<close> is an input of
  \<open>update\<close>.
\<close>

record camera_state =
  distance :: real
  angle :: real
  elevation :: real
  target :: vector3
  fov :: real

record camera_config =
  configFov :: real
  near :: real
  far :: real
  aspect :: real
  initialDistance :: real
  smoothing :: real

record camera =
  state :: camera_state
  targetState :: camera_state
  cameraConfig :: camera_config
  transitionProgress :: real
  isTransitioning :: bool
  transitionDuration :: real
  transitionStart :: real
  cameraPosition :: vector3
  cameraFov :: real

definition MIN_CAMERA_DISTANCE :: real where
  "MIN_CAMERA_DISTANCE = 30"

definition MAX_CAMERA_DISTANCE :: real where
  "MAX_CAMERA_DISTANCE = 300"

definition updatePosition :: "camera \<Rightarrow> camera" where
  "updatePosition c =
     (let st = state c;
          x = sin (angle st) * cos (elevation st) * distance st;
          y = sin (elevation st) * distance st;
          z = cos (angle st) * cos (elevation st) * distance st
      in c\<lparr>cameraPosition := \<lparr>vec_x = vec_x (target st) + x,
                               vec_y = vec_y (target st) + y,
                               vec_z = vec_z (target st) + z\<rparr>\<rparr>)"









definition setDistance :: "real \<Rightarrow> bool \<Rightarrow> camera \<Rightarrow> camera" where
  "setDistance d smooth c =
     (let clampedDistance = max MIN_CAMERA_DISTANCE (min MAX_CAMERA_DISTANCE d)
      in if smooth then c\<lparr>targetState := (targetState c)\<lparr>distance := clampedDistance\<rparr>\<rparr>
         else updatePosition
                (c\<lparr>state := (state c)\<lparr>distance := clampedDistance\<rparr>,
                   targetState := (targetState c)\<lparr>distance := clampedDistance\<rparr>\<rparr>))"

definition setAngle :: "real \<Rightarrow> bool \<Rightarrow> camera \<Rightarrow> camera" where
  "setAngle a smooth c =
     (if smooth then c\<lparr>targetState := (targetState c)\<lparr>angle := a\<rparr>\<rparr>
      else updatePosition
             (c\<lparr>state := (state c)\<lparr>angle := a\<rparr>,
                targetState := (targetState c)\<lparr>angle := a\<rparr>\<rparr>))"

definition setElevation :: "real \<Rightarrow> bool \<Rightarrow> camera \<Rightarrow> camera" where
  "setElevation e smooth c =
     (let clampedElevation = max 0.1 (min (pi / 2.5) e)
      in if smooth then c\<lparr>targetState := (targetState c)\<lparr>elevation := clampedElevation\<rparr>\<rparr>
         else updatePosition
                (c\<lparr>state := (state c)\<lparr>elevation := clampedElevation\<rparr>,
                   targetState := (targetState c)\<lparr>elevation := clampedElevation\<rparr>\<rparr>))"

definition setFOV :: "real \<Rightarrow> bool \<Rightarrow> camera \<Rightarrow> camera" where
  "setFOV f smooth c =
     (let clampedFOV = max 10 (min 120 f)
      in if smooth then c\<lparr>targetState := (targetState c)\<lparr>fov := clampedFOV\<rparr>\<rparr>
         else c\<lparr>state := (state c)\<lparr>fov := clampedFOV\<rparr>,
                targetState := (targetState c)\<lparr>fov := clampedFOV\<rparr>,
                cameraFov := clampedFOV\<rparr>)"

text \<open>\<open>orbit\<close> adds to the target angle without reducing it.\<close>

definition orbit :: "real \<Rightarrow> real \<Rightarrow> camera \<Rightarrow> camera" where
  "orbit deltaAngle deltaElevation c =
     (let c1 = setAngle (angle (targetState c) + deltaAngle) True c
      in setElevation (elevation (targetState c1) + deltaElevation) True c1)"






section \<open>Theorems\<close>

subsection \<open>The retry chain of acquire\<close>










subsection \<open>Pool conservation\<close>

lemma take_obj_held:
  "pool_inv p \<Longrightarrow> take_obj p = Inr (ob, p1) \<Longrightarrow> held_inv ob p1"
  apply (cases "available p" rule: rev_cases)
  apply (auto simp: pool_inv_def held_inv_def take_obj_def getTotalSize_def less_Suc_eq split: if_splits)
  done

lemma dispose_held:
  "held_inv ob p \<Longrightarrow> pool_inv (dispose_obj ob p)"
  by (auto simp: pool_inv_def held_inv_def dispose_obj_def getTotalSize_def)

lemma activate_held:
  "held_inv ob p \<Longrightarrow> pool_inv (activate ob p)"
  by (auto simp: pool_inv_def held_inv_def activate_def getTotalSize_def set_add_def Let_def)

lemma acquire_inv_aux:
  assumes run: "acquire p0 = Some y0"
  shows "pool_inv p0 \<longrightarrow> pool_inv (snd y0)"
proof (rule acquire.raw_induct[where P = "\<lambda>p y. pool_inv p \<longrightarrow> pool_inv (snd y)", OF _ run], goal_cases)
  case (1 acq p y)
  show ?case
  proof
    assume inv: "pool_inv p"
    show "pool_inv (snd y)"
    proof (cases "take_obj p")
      case (Inl e)
      with 1 inv show ?thesis by auto
    next
      case (Inr a)
      obtain ob p1 where a: "a = (ob, p1)" by (cases a)
      have h: "held_inv ob p1" using take_obj_held[OF inv] Inr a by simp
      show ?thesis
      proof (cases "validateFn (config p1) ob")
        case True
        with 1 Inr a have "snd y = activate ob p1" by auto
        then show ?thesis using activate_held[OF h] by simp
      next
        case False
        with 1 Inr a have "acq (dispose_obj ob p1) = Some y" by simp
        then show ?thesis using 1(1) dispose_held[OF h] by blast
      qed
    qed
  qed
qed

lemma acquire_inv:
  "acquire p = Some (r, p') \<Longrightarrow> pool_inv p \<Longrightarrow> pool_inv p'"
  using acquire_inv_aux[of p "(r, p')"] by simp

lemma createObject_inv:
  "pool_inv p \<Longrightarrow> createObject p = Inr (ob, p1) \<Longrightarrow> pool_inv p1"
  by (auto simp: pool_inv_def createObject_def getTotalSize_def less_Suc_eq split: if_splits)

lemma initialize_inv:
  "pool_inv p \<Longrightarrow> initialize n p = Inr p' \<Longrightarrow> pool_inv p'"
  by (induction n arbitrary: p) (auto split: sum.splits dest: createObject_inv)

lemma new_pool_inv: "new_pool c = Inr p \<Longrightarrow> pool_inv p"
  unfolding new_pool_def
  by (erule initialize_inv[rotated]) (simp add: pool_inv_def getTotalSize_def empty_stats_def)

lemma shrink_loop_inv: "pool_inv p \<Longrightarrow> pool_inv (shrink_loop n p)"
proof (induction n arbitrary: p)
  case 0
  then show ?case by simp
next
  case (Suc n)
  have "pool_inv (if available p = [] then p
        else let ob = last (available p);
                 p1 = dispose_obj ob (p\<lparr>available := butlast (available p)\<rparr>)
             in p1\<lparr>stats := (stats p1)\<lparr>availableCount := availableCount (stats p1) - 1\<rparr>\<rparr>)"
    using Suc.prems
    by (cases "available p" rule: rev_cases)
       (auto simp: pool_inv_def dispose_obj_def getTotalSize_def Let_def)
  then show ?case using Suc.IH by simp
qed

lemma checkShrink_inv: "pool_inv p \<Longrightarrow> pool_inv (checkShrink now p)"
proof -
  assume a: "pool_inv p"
  have b: "pool_inv (p\<lparr>lastShrinkCheck := now\<rparr>)" using a by (simp add: pool_inv_def getTotalSize_def)
  show ?thesis using a b shrink_loop_inv[OF b] by (simp add: checkShrink_def Let_def)
qed

lemma release_inv: "pool_inv p \<Longrightarrow> pool_inv (release ob now p)"
proof (cases "ob \<in> set (active p)")
  case False
  assume "pool_inv p"
  with False show ?thesis by (simp add: release_def)
next
  case True
  assume a: "pool_inv p"
  let ?p1 = "p\<lparr>active := set_delete ob (active p),
                   stats := (stats p)\<lparr>activeCount := activeCount (stats p) - 1\<rparr>\<rparr>"
  have len: "int (length (removeAll ob (active p))) = int (length (active p)) - 1"
  proof -
    have "length (removeAll ob (active p)) = length (active p) - 1"
      using a True by (simp add: pool_inv_def distinct_remove1_removeAll[symmetric] length_remove1)
    moreover have "0 < length (active p)" using length_pos_if_in_set[OF True] .
    ultimately show ?thesis by arith
  qed
  have h: "held_inv ob ?p1"
    using a True len
    by (auto simp: pool_inv_def held_inv_def set_delete_def getTotalSize_def distinct_removeAll)
  let ?p2 = "?p1\<lparr>available := available ?p1 @ [ob],
                        stats := (stats ?p1)\<lparr>availableCount := availableCount (stats ?p1) + 1\<rparr>\<rparr>"
  have p2: "pool_inv ?p2" using h by (auto simp: pool_inv_def held_inv_def getTotalSize_def)
  show ?thesis using True dispose_held[OF h] p2 checkShrink_inv[OF p2]
    by (simp add: release_def Let_def)
qed

lemma run_ops_inv: "pool_inv p \<Longrightarrow> run_ops ops p = Some p' \<Longrightarrow> pool_inv p'"
proof (induction ops p rule: run_ops.induct)
  case (1 p)
  then show ?case by simp
next
  case (2 ops p)
  then show ?case by (auto split: option.splits dest: acquire_inv)
next
  case (3 ob now ops p)
  then show ?case by (simp add: release_inv)
qed


text \<open>
  Claim C2.  From the pool the constructor builds, after every sequence of \<open>acquire()\<close>
  and \<open>release()\<close> calls, \<open>available.length + active.size\<close> equals \<open>stats.created\<close>
  minus \<open>stats.disposed\<close>.  (Calls that fail with exhaustion are part of the sequences;
  the bound on the total is not needed.)
\<close>

theorem pool_conservation:
  "new_pool c = Inr p0 \<Longrightarrow> run_ops ops p0 = Some p \<Longrightarrow>
   int (length (available p)) + int (length (active p)) = created (stats p) - disposed (stats p)"
  using run_ops_inv[OF new_pool_inv] by (fastforce simp: pool_inv_def getTotalSize_def)

theorem pool_conservation_witness:
  "new_pool cfg_small = Inr pool_start \<and> run_ops ops_demo pool_start = Some pool_final \<and>
   int (length (available pool_final)) + int (length (active pool_final)) =
     created (stats pool_final) - disposed (stats pool_final)"
proof -
  have h1: "new_pool cfg_small = Inr pool_start"
    by (simp add: new_pool_def cfg_small_def pool_start_def createObject_def
        getTotalSize_def empty_stats_def)
  have h2: "run_ops ops_demo pool_start = Some pool_final"
    by (simp add: ops_demo_def pool_start_def pool_final_def cfg_small_def empty_stats_def
        acquire.simps take_obj_def activate_def set_add_def getTotalSize_def release_def
        set_delete_def checkShrink_def shrinkCheckInterval_def Let_def)
  show ?thesis using h1 h2 pool_conservation [OF h1 h2] by simp
qed

subsection \<open>Utilization\<close>



subsection \<open>Gravity of a particle\<close>

lemma particle_update_vy:
  assumes "0 \<le> dt"
  shows "min (vec_y (velocity (pdata p))) (- 10 - 0.98 * dt)
           \<le> vec_y (velocity (pdata (snd (particle_update dt p))))"
  using assms
  by (auto simp: particle_update_def updateTrail_def Let_def min_def split: option.splits)

lemma particle_update_vy_kept:
  "vec_y (velocity (pdata p)) \<le> - 10 \<Longrightarrow>
   vec_y (velocity (pdata (snd (particle_update dt p)))) = vec_y (velocity (pdata p))"
  by (auto simp: particle_update_def updateTrail_def Let_def split: option.splits)

text \<open>
  Claim C3, as amended.  For every particle and every sequence of \<open>update(dt)\<close> calls with
  \<open>0 \<le> dt \<le> D\<close>, \<open>velocity.y\<close> never drops below the smaller of its initial value and
  \<open>-10 - 0.98 * D\<close>.  Gravity is a gate, not a clamp: a step is taken only while
  \<open>velocity.y > -10\<close> and subtracts \<open>0.98 * dt\<close>, so the last step may pass -10 by up to
  \<open>0.98 * dt\<close>, and a velocity that starts at or below -10 is left as it is.
\<close>

theorem gravity_gate:
  "\<forall>dt \<in> set dts. 0 \<le> dt \<and> dt \<le> D \<Longrightarrow>
   min (vec_y (velocity (pdata p))) (- 10 - 0.98 * D)
     \<le> vec_y (velocity (pdata (particle_updates dts p)))"
proof (induction dts arbitrary: p)
  case Nil
  then show ?case by simp
next
  case (Cons dt dts)
  let ?q = "snd (particle_update dt p)"
  have dt: "0 \<le> dt" "dt \<le> D" using Cons.prems by auto
  have 1: "min (vec_y (velocity (pdata p))) (- 10 - 0.98 * dt) \<le> vec_y (velocity (pdata ?q))"
    using particle_update_vy[OF dt(1)] .
  have 2: "min (vec_y (velocity (pdata ?q))) (- 10 - 0.98 * D)
             \<le> vec_y (velocity (pdata (particle_updates dts ?q)))"
    using Cons.IH[of ?q] Cons.prems by simp
  show ?case using 1 2 dt by (simp add: min_def split: if_splits)
qed

theorem gravity_gate_witness:
  "vec_y (velocity (pdata (particle_updates [1/10, 1/10] particle_falling))) = - 1262 / 125 \<and>
   min (vec_y (velocity (pdata particle_falling))) (- 10 - 0.98 * (1/10))
     \<le> vec_y (velocity (pdata (particle_updates [1/10, 1/10] particle_falling)))"
proof -
  have h: "\<forall>dt \<in> set [1/10, 1/10]. 0 \<le> dt \<and> dt \<le> (1/10::real)" by simp
  have v: "vec_y (velocity (pdata (particle_updates [1/10, 1/10] particle_falling)))
             = - 1262 / 125"
    by (simp add: particle_update_def particle_falling_def Let_def origin_def)
  show ?thesis using v gravity_gate [OF h, of particle_falling] by simp
qed

text \<open>The claim as stated fails: a live particle falling at 9.9 is above the gate, and one
  update of one second takes it to 10.88, below -10.\<close>

theorem gravity_below_terminal_counterexample:
  "fst (particle_update 1 particle_falling) \<and>
   - 10 \<le> vec_y (velocity (pdata particle_falling)) \<and>
   vec_y (velocity (pdata (snd (particle_update 1 particle_falling)))) < - 10"
  by (simp add: particle_update_def particle_falling_def Let_def origin_def)

subsection \<open>The spawn interval\<close>





subsection \<open>Marking tracked objects for update\<close>

lemma markAllForUpdate_marks_all:
  "\<forall>(k, ob) \<in> set (lodObjects (markAllForUpdate m)). forceUpdate ob"
  by (auto simp: markAllForUpdate_def)

lemma setDistances_marks_all:
  "\<forall>(k, ob) \<in> set (lodObjects (setDistances ds m)). forceUpdate ob"
  by (auto simp: setDistances_def markAllForUpdate_def)

lemma adjustQualitySettings_marks_all:
  "\<forall>(k, ob) \<in> set (lodObjects (adjustQualitySettings q m)). forceUpdate ob"
  by (auto simp: adjustQualitySettings_def markAllForUpdate_def Let_def)

lemma setUpdateFrequency_keeps_objects:
  "lodObjects (setUpdateFrequency f m) = lodObjects m"
  by (simp add: setUpdateFrequency_def Let_def)

text \<open>
  Claim C5.  After \<open>setDistances\<close> every tracked object has \<open>forceUpdate = true\<close>
  (\<open>setDistances_marks_all\<close>), and so it is after a quality change, which sets the
  frequency too.  \<open>setUpdateFrequency\<close> changes the frequency and the interval and does
  not touch the objects: on the manager that has just evaluated its one district, the
  frequency goes from 30 to 20 and the district's flag stays \<open>false\<close>, where
  \<open>setDistances\<close> sets it.
\<close>

theorem setUpdateFrequency_leaves_flags:
  "updateFrequency (lodConfig lod_seen) = 30 \<and>
   updateFrequency (lodConfig (setUpdateFrequency 20 lod_seen)) = 20 \<and>
   map (\<lambda>(k, ob). forceUpdate ob) (lodObjects (setUpdateFrequency 20 lod_seen)) = [False] \<and>
   map (\<lambda>(k, ob). forceUpdate ob) (lodObjects (setDistances (50, 100, 200) lod_seen)) = [True]"
  by (simp add: lod_seen_def lod_update_def lod_one_def addObject_def lod_new_def
      setUpdateFrequency_def setDistances_def markAllForUpdate_def updateLODObject_def
      distanceTo_def origin_def tier_of_def count_level_def setObjectVisibility_def
      applyLODLevel_def Let_def unit_sphere_def)

subsection \<open>The setLOD hook\<close>

text \<open>
  Claim C6.  The hook is called when the tier changes; it is not called for a forced
  update that finds the tier unchanged: \<open>forceUpdate\<close> has been cleared by the time the
  test \<open>newLODLevel !== lastLODLevel || forceUpdate\<close> reads it.  An object entering
  \<open>updateLODObject\<close> with the flag set, no camera object for the frustum test, and a
  non-culled tier equal to its last one leaves the trace of hook calls and events as it
  was.
\<close>

theorem forced_same_tier_no_hook:
  assumes "forceUpdate ob" "camera = None"
    "tier_of (distanceTo cp (worldPosition ob)) (distances (lodConfig m)) = lastLODLevel ob"
    "lastLODLevel ob \<noteq> LodCulled"
  shows "lodTrace (snd (updateLODObject ob cp camera m)) = lodTrace m \<and>
         lastDistance (fst (updateLODObject ob cp camera m))
           = Some (distanceTo cp (worldPosition ob))"
  using assms
  by (simp add: updateLODObject_def Let_def setObjectVisibility_def split: prod.splits)

text \<open>The district that \<open>addObject\<close> has just registered (\<open>forceUpdate = true\<close>,
  \<open>lastLODLevel = high\<close>) at distance 0, tier high, is re-evaluated (its \<open>lastDistance\<close>
  is written) and the trace gets no \<open>setLOD\<close> call; the same object with last tier medium
  gets one.\<close>

theorem forced_update_skips_setLOD:
  "lodObjects lod_one = [(''d1'', district_fresh)] \<and>
   forceUpdate district_fresh \<and> lastLODLevel district_fresh = LodHigh \<and>
   tier_of (distanceTo origin (worldPosition district_fresh)) (distances (lodConfig lod_one))
     = LodHigh \<and>
   lastDistance (fst (updateLODObject district_fresh origin None lod_one)) = Some 0 \<and>
   lodTrace (snd (updateLODObject district_fresh origin None lod_one)) = lodTrace lod_one \<and>
   lodTrace (snd (updateLODObject (district_fresh\<lparr>lastLODLevel := LodMedium\<rparr>)
                    origin None lod_one))
     = lodTrace lod_one @ [SetLOD (DistrictComponent ''d1'') 0 (50, 100, 200),
                           LevelChange ''d1'' LodHigh 0]"
proof -
  have h1: "forceUpdate district_fresh" by (simp add: district_fresh_def)
  have h3: "tier_of (distanceTo origin (worldPosition district_fresh))
              (distances (lodConfig lod_one)) = lastLODLevel district_fresh"
    by (simp add: district_fresh_def lod_one_def addObject_def lod_new_def tier_of_def
        distanceTo_def origin_def Let_def)
  have h4: "lastLODLevel district_fresh \<noteq> LodCulled" by (simp add: district_fresh_def)
  have d: "distanceTo origin (worldPosition district_fresh) = 0"
    by (simp add: district_fresh_def distanceTo_def origin_def)
  have l: "lodObjects lod_one = [(''d1'', district_fresh)] \<and>
           lastLODLevel district_fresh = LodHigh"
    by (simp add: lod_one_def addObject_def lod_new_def district_fresh_def Let_def)
  have m: "lodTrace (snd (updateLODObject (district_fresh\<lparr>lastLODLevel := LodMedium\<rparr>)
                    origin None lod_one))
     = lodTrace lod_one @ [SetLOD (DistrictComponent ''d1'') 0 (50, 100, 200),
                           LevelChange ''d1'' LodHigh 0]"
    by (simp add: lod_one_def addObject_def lod_new_def district_fresh_def
        updateLODObject_def distanceTo_def origin_def tier_of_def count_level_def
        setObjectVisibility_def applyLODLevel_def Let_def unit_sphere_def)
  show ?thesis
    using h1 h3 d l m forced_same_tier_no_hook [OF h1 refl h3 h4] by simp
qed


subsection \<open>Pausing the animation loop\<close>

lemma resume_resets_lastTime:
  "isRunning s \<Longrightarrow> isPaused s \<Longrightarrow>
   lastTime (resume now s) = now \<and> elapsedTime (resume now s) = elapsedTime s"
  by (simp add: resume_def)

text \<open>
  Claim C7.  \<open>resume\<close> resets \<open>lastTime\<close>, so the first frame after it measures its delta
  from \<open>resume\<close>; but \<open>elapsedTime\<close> does advance over the paused interval.  \<open>loop\<close> adds
  the delta to \<open>elapsedTime\<close> before it tests \<open>isPaused\<close>: a frame callback that finds the
  loop paused runs no hook and leaves the loop paused with a larger \<open>elapsedTime\<close>.
\<close>

theorem paused_tick_advances:
  assumes "isRunning s" "isPaused s" "lastTime s < t" "0 < maxDeltaTime (loopConfig s)"
  shows "\<exists>s'. loop t s = Some s' \<and> isPaused s' \<and> hookCalls s' = hookCalls s \<and>
              elapsedTime s < elapsedTime s'"
  using assms by (simp add: loop_def Let_def min_def)

text \<open>The loop is started at 0, runs its first frame at 16 ms and is paused
  (\<open>elapsedTime\<close> 0.016 s).  Three frame callbacks arrive during the pause, at 32, 48 and
  64 ms.  At \<open>resume\<close> (70 ms) \<open>elapsedTime\<close> is 0.064 s: the paused interval has been
  counted.  The first frame after \<open>resume\<close> (80 ms) gets the delta 0.010 s and hands the
  hooks an elapsed time of 0.074 s.\<close>

theorem paused_time_is_counted:
  "map_option pause (loop 16 (start 0 loop_new)) = Some loop_paused \<and>
   elapsedTime loop_paused = 16 / 1000 \<and>
   (\<exists>s'. loop 32 loop_paused = Some s' \<and> elapsedTime loop_paused < elapsedTime s') \<and>
   (case ticks [32, 48, 64] loop_paused of
      None \<Rightarrow> False
    | Some s \<Rightarrow>
        isPaused s \<and> hookCalls s = hookCalls loop_paused \<and>
        elapsedTime (resume 70 s) = 64 / 1000 \<and>
        (case loop 80 (resume 70 s) of
           None \<Rightarrow> False
         | Some s' \<Rightarrow> deltaTime s' = 10 / 1000 \<and> elapsedTime s' = 74 / 1000))"
proof -
  have h: "isRunning loop_paused" "isPaused loop_paused" "lastTime loop_paused < 32"
    "0 < maxDeltaTime (loopConfig loop_paused)"
    by (simp_all add: loop_paused_def loop_new_def)
  have a: "\<exists>s'. loop 32 loop_paused = Some s' \<and> elapsedTime loop_paused < elapsedTime s'"
    using paused_tick_advances [OF h] by blast
  have b: "map_option pause (loop 16 (start 0 loop_new)) = Some loop_paused \<and>
   elapsedTime loop_paused = 16 / 1000 \<and>
   (case ticks [32, 48, 64] loop_paused of
      None \<Rightarrow> False
    | Some s \<Rightarrow>
        isPaused s \<and> hookCalls s = hookCalls loop_paused \<and>
        elapsedTime (resume 70 s) = 64 / 1000 \<and>
        (case loop 80 (resume 70 s) of
           None \<Rightarrow> False
         | Some s' \<Rightarrow> deltaTime s' = 10 / 1000 \<and> elapsedTime s' = 74 / 1000))"
    by (simp add: loop_def start_def loop_new_def pause_def loop_paused_def Let_def
        variableTimeStepUpdate_def render_def resume_def)
  show ?thesis using a b by blast
qed


subsection \<open>Camera smoothing\<close>





















end
